theory Spec2Isabelle
  imports Main
begin

section \<open>Python strings\<close>

text \<open>
  Strings are lists of characters. \<open>lower\<close> is \<open>str.lower\<close> on ASCII text: the
  letters \<open>A\<close> to \<open>Z\<close> move to \<open>a\<close> to \<open>z\<close>, every other character stays.
  \<open>substring p s\<close> is the Python test \<open>p in s\<close> on two strings, and
  \<open>replace_char\<close> is \<open>s.replace(a, b)\<close> for one-character arguments.
\<close>

definition lower_char :: "char \<Rightarrow> char" where
  "lower_char c =
     (let n = (of_char c :: nat) in if 65 \<le> n \<and> n \<le> 90 then char_of (n + 32) else c)"

definition lower :: "string \<Rightarrow> string" where
  "lower s = map lower_char s"

fun startswith :: "string \<Rightarrow> string \<Rightarrow> bool" where
  "startswith s [] = True"
| "startswith [] (p # ps) = False"
| "startswith (c # cs) (p # ps) = (c = p \<and> startswith cs ps)"

fun substring :: "string \<Rightarrow> string \<Rightarrow> bool" where
  "substring p [] = (p = [])"
| "substring p (c # cs) = (startswith (c # cs) p \<or> substring p cs)"

definition replace_char :: "char \<Rightarrow> char \<Rightarrow> string \<Rightarrow> string" where
  "replace_char a b s = map (\<lambda>c. if c = a then b else c) s"

section \<open>Configuration as the engine reads it\<close>

text \<open>
  The \<open>response\<close> section of \<open>self.config\<close> and the suspicious-port set, with the
  types the default configuration gives them. The reads
  \<open>self.config.get('response', {}).get('process_whitelist', [])\<close> and
  \<open>self.config['response'][...]\<close> are field selections.
\<close>

record response_config =
  enabled :: bool
  auto_response :: bool
  require_confirmation :: bool
  ip_whitelist :: "string list"
  process_whitelist :: "string list"
  auto_block_threshold :: int
  auto_terminate_threshold :: int
  default_block_duration_hours :: int
  max_auto_blocks_per_hour :: int

record config =
  suspicious_ports :: "int list"
  response :: response_config

definition default_response :: response_config where
  "default_response =
     \<lparr> enabled = False, auto_response = False, require_confirmation = True,
       ip_whitelist = [''127.0.0.0/8'', ''192.168.0.0/16'', ''10.0.0.0/8'', ''172.16.0.0/12''],
       process_whitelist = [''sshd'', ''systemd'', ''kernel'', ''init'', ''cron'',
                            ''apache2'', ''nginx'', ''mysql'', ''postgresql''],
       auto_block_threshold = 80, auto_terminate_threshold = 90,
       default_block_duration_hours = 24, max_auto_blocks_per_hour = 10 \<rparr>"

definition default_suspicious_ports :: "int list" where
  "default_suspicious_ports =
     [1337, 31337, 12345, 54321, 9999, 6667, 6697,
      4444, 5555, 7777, 8888, 9090, 1234, 2222, 3333, 6666, 8080,
      1080, 1081, 5900, 5901, 3389, 23, 2323, 2332,
      4899, 5000, 5001, 8291, 50050, 50051]"

definition default_config :: config where
  "default_config = \<lparr> suspicious_ports = default_suspicious_ports, response = default_response \<rparr>"

section \<open>Whitelist evaluator: processes\<close>

definition critical_processes :: "string list" where
  "critical_processes =
     [''systemd'', ''kernel'', ''kthreadd'', ''migration'', ''rcu_'', ''watchdog'',
      ''sshd'', ''init'', ''dbus'', ''networkmanager'', ''systemd-'', ''cron'',
      ''rsyslog'', ''ntpd'', ''chronyd'', ''apache2'', ''nginx'', ''mysql'',
      ''postgresql'', ''redis-server'', ''mongodb'', ''docker'', ''kubelet'']"

definition matches_critical :: "string \<Rightarrow> bool" where
  "matches_critical process_name =
     list_ex (\<lambda>critical. substring critical (lower process_name)) critical_processes"

text \<open>
  \<open>is_whitelisted_process\<close>: the name is \<open>None\<close> or a string, the pid \<open>None\<close> or an
  integer. \<open>not process_name\<close> holds for \<open>None\<close> and for the empty string;
  \<open>pid and pid <= 10\<close> is false for \<open>None\<close> and for \<open>0\<close>.
\<close>

definition is_whitelisted_process :: "config \<Rightarrow> string option \<Rightarrow> int option \<Rightarrow> bool" where
  "is_whitelisted_process cfg process_name pid =
     (case process_name of
        None \<Rightarrow> False
      | Some name \<Rightarrow>
          if name = [] then False
          else if matches_critical name then True
          else if name \<in> set (process_whitelist (response cfg)) then True
          else (case pid of None \<Rightarrow> False | Some p \<Rightarrow> p \<noteq> 0 \<and> p \<le> 10))"

section \<open>The world outside the program\<close>

text \<open>
  Addresses and networks as the \<open>ipaddress\<close> module hands them to the program: an
  address object with its version, its integer value and the two attributes the program
  reads; a network with its version, base address and prefix length.
  \<open>ip_in_network\<close> is \<open>ip_obj in network\<close>: false across versions, otherwise the
  address masked to the prefix equals the network address.
\<close>

record ip_obj =
  version :: nat
  ip_int :: nat
  is_loopback :: bool
  is_private :: bool

record ip_net =
  net_version :: nat
  network_address :: nat
  prefixlen :: nat



text \<open>
  Exceptions the program distinguishes: the two \<open>psutil\<close> errors with handlers of
  their own, \<open>psutil.TimeoutExpired\<close>, and any other \<open>Exception\<close>.
\<close>

datatype exc = NoSuchProcess | AccessDenied | TimeoutExpired | OtherError

text \<open>
  Everything an operation asks of its surroundings is a field of \<open>env\<close>; a raising
  call is \<open>Inl\<close> of the exception (or \<open>Some\<close> of it, for a call without result):
  \<^item> \<open>ip_address\<close>, \<open>ip_network\<close>: \<open>ipaddress.ip_address\<close> and
    \<open>ipaddress.ip_network\<close>, \<open>None\<close> for \<open>ValueError\<close>;
  \<^item> \<open>now\<close>: \<open>datetime.now()\<close> in seconds since \<open>datetime.min\<close>
    (0001-01-01 00:00:00), read once for the whole operation;
  \<^item> \<open>platform_system\<close>: \<open>platform.system()\<close>;
  \<^item> \<open>subprocess_run\<close>: the return code of \<open>subprocess.run\<close> on a command line;
  \<^item> \<open>open_write\<close>, \<open>path_exists\<close>, \<open>os_remove\<close>: the file calls of the macOS paths;
  \<^item> \<open>psutil_process\<close>: the constructor \<open>psutil.Process(pid)\<close>;
  \<^item> \<open>proc_name\<close>: the method \<open>.name()\<close> of that process object;
  \<^item> \<open>proc_terminate\<close>, \<open>proc_wait\<close> (with its timeout), \<open>proc_kill\<close>,
    \<open>proc_suspend\<close>, \<open>proc_resume\<close>: its other methods;
  \<^item> \<open>input_choice\<close>, \<open>input_confirm\<close>: what the two calls of \<open>input\<close> at the
    prompt give: a line (the first already stripped), \<open>KeyboardInterrupt\<close>, or
    \<open>EOFError\<close>.
\<close>

datatype input_result = InputLine string | InputInterrupt | InputEOF

record env =
  ip_address :: "string \<Rightarrow> ip_obj option"
  ip_network :: "string \<Rightarrow> ip_net option"
  now :: int
  platform_system :: string
  subprocess_run :: "string \<Rightarrow> exc + int"
  open_write :: "string \<Rightarrow> exc option"
  path_exists :: "string \<Rightarrow> bool"
  os_remove :: "string \<Rightarrow> exc option"
  psutil_process :: "int \<Rightarrow> exc option"
  proc_name :: "int \<Rightarrow> exc + string"
  proc_terminate :: "int \<Rightarrow> exc option"
  proc_wait :: "int \<Rightarrow> int \<Rightarrow> exc option"
  proc_kill :: "int \<Rightarrow> exc option"
  proc_suspend :: "int \<Rightarrow> exc option"
  proc_resume :: "int \<Rightarrow> exc option"
  input_choice :: input_result
  input_confirm :: input_result

section \<open>Whitelist evaluator: addresses\<close>



section \<open>Risk scorer and alerts\<close>

record connection =
  protocol :: string
  local_ip :: "string option"
  local_port :: "int option"
  foreign_ip :: "string option"
  foreign_port :: "int option"
  conn_state :: string
  pid :: "int option"
  program :: "string option"
  risk_score :: int

definition is_internal_ip :: "env \<Rightarrow> string option \<Rightarrow> bool" where
  "is_internal_ip e ip =
     (case ip of
        None \<Rightarrow> True
      | Some s \<Rightarrow>
          if s = [] then True
          else (case ip_address e s of
                  None \<Rightarrow> False
                | Some obj \<Rightarrow> is_private obj \<or> is_loopback obj))"

definition port_suspicious :: "config \<Rightarrow> int option \<Rightarrow> bool" where
  "port_suspicious cfg port = (case port of None \<Rightarrow> False | Some n \<Rightarrow> n \<in> set (suspicious_ports cfg))"

definition external_ip :: "env \<Rightarrow> string option \<Rightarrow> bool" where
  "external_ip e ip = ((ip \<noteq> None \<and> ip \<noteq> Some []) \<and> \<not> is_internal_ip e ip)"

definition suspicious_program :: "string option \<Rightarrow> bool" where
  "suspicious_program prog =
     (case prog of
        None \<Rightarrow> False
      | Some s \<Rightarrow> s \<noteq> [] \<and> list_ex (\<lambda>pattern. substring pattern (lower s)) [''temp'', ''tmp'', ''unknown''])"

definition calculate_basic_risk_score :: "env \<Rightarrow> config \<Rightarrow> connection \<Rightarrow> int" where
  "calculate_basic_risk_score e cfg c =
     (let score = 0;
          score = (if port_suspicious cfg (foreign_port c) then score + 30 else score);
          score = (if port_suspicious cfg (local_port c) then score + 25 else score);
          score = (if external_ip e (foreign_ip c) then score + 20 else score);
          score = (if suspicious_program (program c) then score + 15 else score)
      in min score 100)"

datatype severity = High | Medium

record alert =
  alert_type :: string
  alert_severity :: severity
  alert_risk :: int

text \<open>
  The body of the analysis loop of \<open>analyze_netstat_comprehensive\<close> for one parsed
  connection: the score is stored in the connection, and an alert is made when the score
  is above 50. The result is the connection and its list of alerts (empty or one alert).
\<close>

definition analyze_connection :: "env \<Rightarrow> config \<Rightarrow> connection \<Rightarrow> connection \<times> alert list" where
  "analyze_connection e cfg c =
     (let score = calculate_basic_risk_score e cfg c;
          c' = c\<lparr>risk_score := score\<rparr>
      in if score > 50
         then (c', [\<lparr>alert_type = ''suspicious_connection'',
                     alert_severity = (if score > 80 then High else Medium),
                     alert_risk = score\<rparr>])
         else (c', []))"

section \<open>The IPv4 fragment of the address library\<close>

text \<open>
  For concrete runs: \<open>ipaddress.ip_address\<close> and \<open>ipaddress.ip_network\<close> on the
  strings \<open>a.b.c.d\<close> and \<open>a.b.c.d/n\<close>, after CPython 3.11: four decimal octets
  without leading zeros, a decimal prefix length up to 32, no host bits set in a network.
  \<open>is_private\<close> follows the table \<open>_private_networks\<close> (the IANA special-purpose
  registry) with its two exceptions, \<open>is_loopback\<close> is membership in 127.0.0.0/8.
\<close>

definition is_digit :: "char \<Rightarrow> bool" where
  "is_digit c = (let n = (of_char c :: nat) in 48 \<le> n \<and> n \<le> 57)"

definition digit_val :: "char \<Rightarrow> nat" where
  "digit_val c = (of_char c :: nat) - 48"

definition decimal :: "string \<Rightarrow> nat" where
  "decimal s = foldl (\<lambda>a c. 10 * a + digit_val c) 0 s"

fun split_on :: "char \<Rightarrow> string \<Rightarrow> string list" where
  "split_on sep [] = [[]]"
| "split_on sep (c # cs) =
     (if c = sep then [] # split_on sep cs
      else (case split_on sep cs of [] \<Rightarrow> [[c]] | w # ws \<Rightarrow> (c # w) # ws))"

definition parse_octet :: "string \<Rightarrow> nat option" where
  "parse_octet octet_str =
     (if octet_str = [] then None
      else if \<not> list_all is_digit octet_str then None
      else if length octet_str > 3 then None
      else if octet_str \<noteq> ''0'' \<and> hd octet_str = CHR ''0'' then None
      else if decimal octet_str > 255 then None
      else Some (decimal octet_str))"

definition ipv4_int_from_string :: "string \<Rightarrow> nat option" where
  "ipv4_int_from_string ip_str =
     (if ip_str = [] then None
      else (let octets = split_on CHR ''.'' ip_str
            in if length octets \<noteq> 4 then None
               else if list_ex (\<lambda>s. parse_octet s = None) octets then None
               else Some (foldl (\<lambda>a s. 256 * a + the (parse_octet s)) 0 octets)))"

definition ipv4_network :: "string \<Rightarrow> ip_net option" where
  "ipv4_network s =
     (case split_on CHR ''/'' s of
        [addr] \<Rightarrow>
          (case ipv4_int_from_string addr of
             None \<Rightarrow> None
           | Some a \<Rightarrow> Some \<lparr>net_version = 4, network_address = a, prefixlen = 32\<rparr>)
      | [addr, prefix_str] \<Rightarrow>
          (case ipv4_int_from_string addr of
             None \<Rightarrow> None
           | Some a \<Rightarrow>
               if prefix_str = [] \<or> \<not> list_all is_digit prefix_str \<or> decimal prefix_str > 32 then None
               else if (a div 2 ^ (32 - decimal prefix_str)) * 2 ^ (32 - decimal prefix_str) \<noteq> a then None
               else Some \<lparr>net_version = 4, network_address = a, prefixlen = decimal prefix_str\<rparr>)
      | _ \<Rightarrow> None)"

definition in_networks :: "nat \<Rightarrow> string list \<Rightarrow> bool" where
  "in_networks a nets =
     list_ex (\<lambda>s. case ipv4_network s of
                     None \<Rightarrow> False
                   | Some n \<Rightarrow> (a div 2 ^ (32 - prefixlen n)) * 2 ^ (32 - prefixlen n) = network_address n)
             nets"

definition ipv4_private_networks :: "string list" where
  "ipv4_private_networks =
     [''0.0.0.0/8'', ''10.0.0.0/8'', ''127.0.0.0/8'', ''169.254.0.0/16'', ''172.16.0.0/12'',
      ''192.0.0.0/24'', ''192.0.0.170/31'', ''192.0.2.0/24'', ''192.168.0.0/16'',
      ''198.18.0.0/15'', ''198.51.100.0/24'', ''203.0.113.0/24'', ''240.0.0.0/4'',
      ''255.255.255.255/32'']"

definition ipv4_private_networks_exceptions :: "string list" where
  "ipv4_private_networks_exceptions = [''192.0.0.9/32'', ''192.0.0.10/32'']"

definition ipv4_address :: "string \<Rightarrow> ip_obj option" where
  "ipv4_address s =
     (case ipv4_int_from_string s of
        None \<Rightarrow> None
      | Some a \<Rightarrow>
          Some \<lparr>version = 4, ip_int = a,
                is_loopback = in_networks a [''127.0.0.0/8''],
                is_private = (in_networks a ipv4_private_networks
                              \<and> \<not> in_networks a ipv4_private_networks_exceptions)\<rparr>)"

section \<open>Response manager: state and audit store\<close>

text \<open>
  The state of \<open>SecurityResponseManager\<close>: the two in-memory sets, the in-memory audit
  tail, and the three database tables as lists of rows in insertion order. The database
  is taken to execute every statement. \<open>calls\<close> records, in order, every call the
  manager makes that changes the host: commands run, files written or removed, and the
  methods called on process objects.

  An audit target is the text \<open>ip\<close>, \<open>PID:pid\<close> or \<open>PID:pid:name\<close>; a reason is a
  given text or a text of the form \<open>prefix: Risk score n\<close>. A message is one of the
  message texts of the source, with its parameters.
\<close>

datatype target_id = TargetIp string | TargetPid int | TargetPidName int string

datatype reason_txt = Text string | RiskScore string int

record audit_entry =
  action :: string
  target :: target_id
  reason :: reason_txt
  timestamp :: int
  success :: bool

record blocked_row =
  row_ip :: string
  row_reason :: reason_txt
  row_timestamp :: int
  auto_unblock_time :: "int option"

record suspended_row =
  row_pid :: int
  row_name :: string
  susp_reason :: reason_txt
  susp_timestamp :: int

datatype ext_call =
    Run string
  | WriteFile string "string list"
  | RemoveFile string
  | ProcTerminate int
  | ProcWait int int
  | ProcKill int
  | ProcSuspend int
  | ProcResume int

datatype message =
    NoPidProvided
  | TerminationBlocked string int
  | Terminated string int
  | AccessDeniedTerminate int
  | ErrorTerminating int exc
  | SuspensionBlocked string int
  | AlreadySuspended int
  | Suspended string int
  | AccessDeniedSuspend int
  | ErrorSuspending int exc
  | NotSuspended int
  | Resumed int
  | ErrorResuming int exc
  | ProcessNotFound int
  | WhitelistedOrInvalid string
  | AlreadyBlocked string
  | Blocked string int
  | FirewallFailed string
  | ErrorBlocking string exc
  | NotBlocked string
  | Unblocked string
  | FailedUnblock string
  | ErrorUnblocking string exc

record manager =
  blocked_ips :: "string set"
  suspended_processes :: "int set"
  audit_log :: "audit_entry list"
  db_blocked_ips :: "blocked_row list"
  db_suspended_processes :: "suspended_row list"
  db_response_log :: "audit_entry list"
  calls :: "ext_call list"

definition call :: "ext_call \<Rightarrow> manager \<Rightarrow> manager" where
  "call c m = m\<lparr>calls := calls m @ [c]\<rparr>"

text \<open>The in-memory log keeps its last 1000 entries.\<close>

definition audit_tail :: "audit_entry list \<Rightarrow> audit_entry list" where
  "audit_tail log = (if length log > 1000 then drop (length log - 1000) log else log)"

definition log_response ::
  "env \<Rightarrow> string \<Rightarrow> target_id \<Rightarrow> reason_txt \<Rightarrow> bool \<Rightarrow> manager \<Rightarrow> manager" where
  "log_response e act tgt rsn ok m =
     (let entry = \<lparr>action = act, target = tgt, reason = rsn, timestamp = now e, success = ok\<rparr>;
          log = audit_log m @ [entry]
      in m\<lparr>db_response_log := db_response_log m @ [entry],
           audit_log := audit_tail log\<rparr>)"

text \<open>The SQL statements on the two ledger tables (both keyed by their first column).\<close>

definition insert_or_replace_blocked :: "blocked_row \<Rightarrow> blocked_row list \<Rightarrow> blocked_row list" where
  "insert_or_replace_blocked row rows = filter (\<lambda>r. row_ip r \<noteq> row_ip row) rows @ [row]"

definition delete_blocked :: "string \<Rightarrow> blocked_row list \<Rightarrow> blocked_row list" where
  "delete_blocked ip rows = filter (\<lambda>r. row_ip r \<noteq> ip) rows"



section \<open>Response executor: processes\<close>







section \<open>Response executor: addresses\<close>

text \<open>
  The platform branches of \<open>block_ip\<close>. The result is \<open>Inl\<close> of an exception raised
  by a call, or the values of \<open>success\<close> and \<open>command\<close> after the branches, where
  \<open>None\<close> stands for the case that no branch ran: then \<open>command\<close> is \<open>None\<close>
  and the name \<open>result\<close> is unbound. \<open>dquote\<close> is the double-quote character of the
  Windows command lines.
\<close>

definition dquote :: string where
  "dquote = [CHR 0x22]"







text \<open>
  The platform branches of \<open>unblock_ip\<close>: the value of \<open>success\<close>, or the exception
  raised. On Linux and Windows the two delete commands are run and their results ignored.
\<close>

definition remove_rules :: "env \<Rightarrow> string \<Rightarrow> manager \<Rightarrow> (exc + bool) \<times> manager" where
  "remove_rules e ip m =
     (let system = lower (platform_system e) in
      if system = ''linux'' then
        (let cmd1 = ''iptables -D INPUT -s '' @ ip @ '' -j DROP'';
             cmd2 = ''iptables -D OUTPUT -d '' @ ip @ '' -j DROP'';
             m1 = call (Run cmd1) m in
         case subprocess_run e cmd1 of
           Inl x \<Rightarrow> (Inl x, m1)
         | Inr rc1 \<Rightarrow>
             (let m2 = call (Run cmd2) m1 in
              case subprocess_run e cmd2 of
                Inl x \<Rightarrow> (Inl x, m2)
              | Inr rc2 \<Rightarrow> (Inr True, m2)))
      else if system = ''darwin'' then
        (let rule_file = ''/tmp/block_'' @ replace_char CHR ''.'' CHR ''_'' ip @ ''.conf'' in
         if path_exists e rule_file then
           (let m1 = call (RemoveFile rule_file) m in
            case os_remove e rule_file of
              Some x \<Rightarrow> (Inl x, m1)
            | None \<Rightarrow> (Inr True, m1))
         else (Inr True, m))
      else if system = ''windows'' then
        (let rule_name = ''NetstatSecurity_Block_'' @ replace_char CHR ''.'' CHR ''_'' ip;
             cmd1 = ''netsh advfirewall firewall delete rule name='' @ dquote @ rule_name @ dquote;
             cmd2 = ''netsh advfirewall firewall delete rule name='' @ dquote @ rule_name
                    @ ''_OUT'' @ dquote;
             m1 = call (Run cmd1) m in
         case subprocess_run e cmd1 of
           Inl x \<Rightarrow> (Inl x, m1)
         | Inr rc1 \<Rightarrow>
             (let m2 = call (Run cmd2) m1 in
              case subprocess_run e cmd2 of
                Inl x \<Rightarrow> (Inl x, m2)
              | Inr rc2 \<Rightarrow> (Inr True, m2)))
      else (Inr False, m))"

definition unblock_ip :: "env \<Rightarrow> string \<Rightarrow> manager \<Rightarrow> (bool \<times> message) \<times> manager" where
  "unblock_ip e ip m =
     (if ip \<notin> blocked_ips m then ((False, NotBlocked ip), m)
      else (case remove_rules e ip m of
              (Inl x, m1) \<Rightarrow> ((False, ErrorUnblocking ip x), m1)
            | (Inr succeeded, m1) \<Rightarrow>
                if succeeded then
                  (let m2 = m1\<lparr>blocked_ips := blocked_ips m1 - {ip}\<rparr>;
                       m3 = m2\<lparr>db_blocked_ips := delete_blocked ip (db_blocked_ips m2)\<rparr>
                   in ((True, Unblocked ip),
                       log_response e ''unblock_ip'' (TargetIp ip) (Text ''Manual unblock'') True m3))
                else ((False, FailedUnblock ip), m1)))"

section \<open>Expiry sweeper\<close>

text \<open>
  \<open>auto_unblock_expired\<close>: the rows with an expiry time are fetched before the loop;
  each row whose time has passed is handed to \<open>unblock_ip\<close>, whose result is only
  logged. \<open>unblock_ip\<close> raises nothing, so the loop reaches every row.
\<close>

fun sweep_rows :: "env \<Rightarrow> blocked_row list \<Rightarrow> manager \<Rightarrow> manager" where
  "sweep_rows e [] m = m"
| "sweep_rows e (r # rs) m =
     (case auto_unblock_time r of
        None \<Rightarrow> sweep_rows e rs m
      | Some t \<Rightarrow>
          if now e \<ge> t then sweep_rows e rs (snd (unblock_ip e (row_ip r) m))
          else sweep_rows e rs m)"


section \<open>Auto-response controller\<close>


datatype printed =
    AutoTerminated message
  | FailedAutoTerminate message
  | AutoBlocked message
  | FailedAutoBlock message
  | ManualResult bool message
  | TerminationCancelled
  | IgnoringConnection
  | DetailedIntelligence
  | ActionCancelled
  | RaisedEOFError









text \<open>The number of successful automatic blocks among the printed lines.\<close>

fun is_auto_blocked :: "printed \<Rightarrow> bool" where
  "is_auto_blocked (AutoBlocked msg) = True"
| "is_auto_blocked other = False"

definition count_auto_blocks :: "printed list \<Rightarrow> nat" where
  "count_auto_blocks out = length (filter is_auto_blocked out)"

section \<open>Loading the configuration\<close>

text \<open>
  Configuration values as Python holds them: the values \<open>json.load\<close> can produce
  (a float is kept as its text) and the sets of the default configuration. A \<open>dict\<close> is
  a list of key-value pairs in insertion order, without repeated keys.
  \<open>dict_set k v d\<close> is the assignment \<open>d[k] = v\<close>: an existing key keeps its place, a
  new key goes to the end.
\<close>

datatype pyval =
    PNone
  | PBool bool
  | PInt int
  | PFloat string
  | PStr string
  | PList "pyval list"
  | PSet "int list"
  | PDict "(string \<times> pyval) list"





section \<open>A concrete environment and the connection of the scoring scenario\<close>

text \<open>
  A Linux host where every command exits with 0, every process call succeeds, process
  4821 is called \<open>tmpx\<close> and process 1 \<open>systemd\<close> (there are no other processes),
  the address library is the IPv4 fragment above, and the clock reads \<open>t\<close>.
\<close>

definition linux_env :: "int \<Rightarrow> env" where
  "linux_env t =
     \<lparr> ip_address = ipv4_address, ip_network = ipv4_network, now = t,
       platform_system = ''linux'',
       subprocess_run = (\<lambda>cmd. Inr 0),
       open_write = (\<lambda>path. None), path_exists = (\<lambda>path. False), os_remove = (\<lambda>path. None),
       psutil_process = (\<lambda>p. if p = 4821 \<or> p = 1 then None else Some NoSuchProcess),
       proc_name = (\<lambda>p. if p = 4821 then Inr ''tmpx''
                        else if p = 1 then Inr ''systemd''
                        else Inl NoSuchProcess),
       proc_terminate = (\<lambda>p. None), proc_wait = (\<lambda>p timeout. None), proc_kill = (\<lambda>p. None),
       proc_suspend = (\<lambda>p. None), proc_resume = (\<lambda>p. None),
       input_choice = InputLine ''4'', input_confirm = InputLine ''n'' \<rparr>"

definition scenario_connection :: "string \<Rightarrow> connection" where
  "scenario_connection ip =
     \<lparr> protocol = ''tcp'', local_ip = None, local_port = None,
       foreign_ip = Some ip, foreign_port = Some 31337,
       conn_state = ''ESTABLISHED'', pid = Some 4821, program = Some ''tmpx'', risk_score = 0 \<rparr>"

definition empty_manager :: manager where
  "empty_manager =
     \<lparr> blocked_ips = {}, suspended_processes = {}, audit_log = [], db_blocked_ips = [],
       db_suspended_processes = [], db_response_log = [], calls = [] \<rparr>"





section \<open>Properties of the whitelist evaluator for processes\<close>

lemma is_whitelisted_process_no_name:
  "is_whitelisted_process cfg None p = False" "is_whitelisted_process cfg (Some []) p = False"
  by (simp_all add: is_whitelisted_process_def)

lemma is_whitelisted_process_named:
  "name \<noteq> [] \<Longrightarrow>
   is_whitelisted_process cfg (Some name) p =
     (matches_critical name \<or> name \<in> set (process_whitelist (response cfg))
      \<or> (\<exists>n. p = Some n \<and> n \<noteq> 0 \<and> n \<le> 10))"
  by (auto simp: is_whitelisted_process_def split: option.splits)

text \<open>
  C10 as stated fails: a call with pid 0 does not always return false, because the
  critical-name test comes before the pid test. \<open>sshd\<close> with pid 0 is whitelisted.
\<close>

theorem C10_pid_zero_counterexample:
  "is_whitelisted_process default_config (Some ''sshd'') (Some 0) = True"
  by (simp add: is_whitelisted_process_def matches_critical_def critical_processes_def
      lower_def lower_char_def)

text \<open>
  C10, amended: for every pid the result is false when the name is absent or empty; with
  pid 0 (or no pid) the low-PID exemption does not apply, so the result is true exactly
  when the non-empty name matches a critical or a user whitelist entry; and the low-PID
  test decides the result only for a non-empty name that matches no critical or user
  entry, where the result is \<open>pid \<noteq> 0 \<and> pid \<le> 10\<close>. In full, for a non-empty name
  the result is: the name matches a critical entry, or is in the user whitelist, or the
  pid is nonzero and at most 10; so a name that matches a critical or user entry is
  whitelisted whatever the pid, and the pid test is not reached for it.
\<close>

theorem C10_low_pid_exemption:
  "(pname = None \<or> pname = Some [] \<longrightarrow>
      \<not> is_whitelisted_process cfg pname p)
   \<and> (p = None \<or> p = Some 0 \<longrightarrow>
        is_whitelisted_process cfg pname p =
          (\<exists>name. pname = Some name \<and> name \<noteq> []
             \<and> (matches_critical name \<or> name \<in> set (process_whitelist (response cfg)))))
   \<and> (\<forall>name. pname = Some name \<and> name \<noteq> [] \<and> \<not> matches_critical name
          \<and> name \<notin> set (process_whitelist (response cfg)) \<longrightarrow>
        is_whitelisted_process cfg pname p = (\<exists>n. p = Some n \<and> n \<noteq> 0 \<and> n \<le> 10))
   \<and> (\<forall>name. pname = Some name \<and> name \<noteq> [] \<longrightarrow>
        is_whitelisted_process cfg pname p =
          (matches_critical name \<or> name \<in> set (process_whitelist (response cfg))
           \<or> (\<exists>n. p = Some n \<and> n \<noteq> 0 \<and> n \<le> 10)))
   \<and> (\<forall>name. pname = Some name \<and> name \<noteq> []
          \<and> (matches_critical name \<or> name \<in> set (process_whitelist (response cfg))) \<longrightarrow>
        is_whitelisted_process cfg pname p)"
proof (intro conjI impI allI)
  assume "pname = None \<or> pname = Some []"
  then show "\<not> is_whitelisted_process cfg pname p"
    using is_whitelisted_process_no_name by auto
next
  assume "p = None \<or> p = Some 0"
  then show "is_whitelisted_process cfg pname p =
      (\<exists>name. pname = Some name \<and> name \<noteq> []
         \<and> (matches_critical name \<or> name \<in> set (process_whitelist (response cfg))))"
    by (cases pname) (auto simp: is_whitelisted_process_def)
next
  fix name
  assume "pname = Some name \<and> name \<noteq> [] \<and> \<not> matches_critical name
          \<and> name \<notin> set (process_whitelist (response cfg))"
  then show "is_whitelisted_process cfg pname p = (\<exists>n. p = Some n \<and> n \<noteq> 0 \<and> n \<le> 10)"
    by (simp add: is_whitelisted_process_named)
next
  fix name
  assume "pname = Some name \<and> name \<noteq> []"
  then show "is_whitelisted_process cfg pname p =
          (matches_critical name \<or> name \<in> set (process_whitelist (response cfg))
           \<or> (\<exists>n. p = Some n \<and> n \<noteq> 0 \<and> n \<le> 10))"
    by (simp add: is_whitelisted_process_named)
next
  fix name
  assume "pname = Some name \<and> name \<noteq> []
          \<and> (matches_critical name \<or> name \<in> set (process_whitelist (response cfg)))"
  then show "is_whitelisted_process cfg pname p"
    by (auto simp: is_whitelisted_process_named)
qed

lemma tmpx_not_critical: "\<not> matches_critical ''tmpx''"
  by (simp add: matches_critical_def critical_processes_def lower_def lower_char_def)

lemma tmpx_not_user_listed: "''tmpx'' \<notin> set (process_whitelist (response default_config))"
  by (simp add: default_config_def default_response_def)

lemma sshd_critical: "matches_critical ''sshd''"
  by (simp add: matches_critical_def critical_processes_def lower_def lower_char_def)

theorem C10_low_pid_exemption_witness:
  "\<not> is_whitelisted_process default_config None (Some 7)
   \<and> \<not> is_whitelisted_process default_config (Some ''tmpx'') (Some 0)
   \<and> is_whitelisted_process default_config (Some ''tmpx'') (Some 7)
   \<and> \<not> is_whitelisted_process default_config (Some ''tmpx'') (Some 11)
   \<and> is_whitelisted_process default_config (Some ''sshd'') (Some 500)"
  using C10_low_pid_exemption [where pname = None and p = "Some 7" and cfg = default_config]
    C10_low_pid_exemption [where pname = "Some ''sshd''" and p = "Some 500" and cfg = default_config]
    sshd_critical
    C10_low_pid_exemption [where pname = "Some ''tmpx''" and p = "Some 0" and cfg = default_config]
    C10_low_pid_exemption [where pname = "Some ''tmpx''" and p = "Some 7" and cfg = default_config]
    C10_low_pid_exemption [where pname = "Some ''tmpx''" and p = "Some 11" and cfg = default_config]
    tmpx_not_critical tmpx_not_user_listed
  by simp

section \<open>Properties of the risk scorer\<close>

lemma score_is_sum:
  "calculate_basic_risk_score e cfg c =
     (if port_suspicious cfg (foreign_port c) then 30 else 0)
     + (if port_suspicious cfg (local_port c) then 25 else 0)
     + (if external_ip e (foreign_ip c) then 20 else 0)
     + (if suspicious_program (program c) then 15 else 0)"
  by (simp add: calculate_basic_risk_score_def Let_def)

lemma score_range:
  "0 \<le> calculate_basic_risk_score e cfg c" "calculate_basic_risk_score e cfg c \<le> 100"
  by (simp_all add: calculate_basic_risk_score_def Let_def)

lemma tmpx_suspicious: "suspicious_program (Some ''tmpx'')"
  by (simp add: suspicious_program_def lower_def lower_char_def)

lemma scenario_score:
  "31337 \<in> set (suspicious_ports cfg) \<Longrightarrow>
   calculate_basic_risk_score e cfg (scenario_connection ip) =
     (if external_ip e (Some ip) then 65 else 45)"
  by (simp add: score_is_sum scenario_connection_def port_suspicious_def tmpx_suspicious)

lemma default_has_31337: "31337 \<in> set (suspicious_ports default_config)"
  by (simp add: default_config_def default_suspicious_ports_def)

lemmas ipv4_eval =
  ipv4_address_def ipv4_int_from_string_def parse_octet_def is_digit_def decimal_def
  digit_val_def in_networks_def ipv4_network_def ipv4_private_networks_def
  ipv4_private_networks_exceptions_def

lemma test_net_3_private:
  "ipv4_address ''203.0.113.5'' =
     Some \<lparr>version = 4, ip_int = 3405803781, is_loopback = False, is_private = True\<rparr>"
  by (simp add: ipv4_eval)

lemma public_dns_not_private:
  "ipv4_address ''8.8.8.8'' =
     Some \<lparr>version = 4, ip_int = 134744072, is_loopback = False, is_private = False\<rparr>"
  by (simp add: ipv4_eval)

lemma test_net_3_internal: "\<not> external_ip (linux_env t) (Some ''203.0.113.5'')"
  by (simp add: external_ip_def is_internal_ip_def linux_env_def test_net_3_private)

lemma public_dns_external: "external_ip (linux_env t) (Some ''8.8.8.8'')"
  by (simp add: external_ip_def is_internal_ip_def linux_env_def public_dns_not_private)

text \<open>
  C6 as stated fails at its own example: 203.0.113.5 lies in 203.0.113.0/24, which the
  address library lists among the private networks, so \<open>is_internal_ip\<close> holds for it
  and the rule for external addresses adds nothing. The connection scores 45, not 65.
\<close>

theorem C6_scenario_counterexample:
  "calculate_basic_risk_score (linux_env 0) default_config (scenario_connection ''203.0.113.5'') \<noteq> 65"
  by (simp add: scenario_score default_has_31337 test_net_3_internal)

text \<open>
  C6, amended: the score is the sum of +30 (foreign port suspicious), +25 (local port
  suspicious), +20 (foreign address present and not private or loopback in the sense of
  the address library) and +15 (suspicious substring in the process name), and lies in
  [0,100]; an alert is made exactly when the score is above 50, with severity high above
  80 and medium otherwise; the example connection with 31337 in the suspicious-port set
  scores 65 when its foreign address is external and 45 otherwise, and with the address
  203.0.113.5 it scores 45 (with 8.8.8.8 it scores 65).
\<close>

theorem C6_risk_score:
  "calculate_basic_risk_score e cfg c =
     (if port_suspicious cfg (foreign_port c) then 30 else 0)
     + (if port_suspicious cfg (local_port c) then 25 else 0)
     + (if external_ip e (foreign_ip c) then 20 else 0)
     + (if suspicious_program (program c) then 15 else 0)
   \<and> 0 \<le> calculate_basic_risk_score e cfg c \<and> calculate_basic_risk_score e cfg c \<le> 100
   \<and> risk_score (fst (analyze_connection e cfg c)) = calculate_basic_risk_score e cfg c
   \<and> snd (analyze_connection e cfg c) =
       (if calculate_basic_risk_score e cfg c > 50
        then [\<lparr>alert_type = ''suspicious_connection'',
               alert_severity = (if calculate_basic_risk_score e cfg c > 80 then High else Medium),
               alert_risk = calculate_basic_risk_score e cfg c\<rparr>]
        else [])
   \<and> (31337 \<in> set (suspicious_ports cfg) \<longrightarrow>
        calculate_basic_risk_score e cfg (scenario_connection ip) =
          (if external_ip e (Some ip) then 65 else 45))
   \<and> calculate_basic_risk_score (linux_env t) default_config (scenario_connection ''203.0.113.5'') = 45
   \<and> calculate_basic_risk_score (linux_env t) default_config (scenario_connection ''8.8.8.8'') = 65"
proof -
  have alerts: "snd (analyze_connection e cfg c) =
       (if calculate_basic_risk_score e cfg c > 50
        then [\<lparr>alert_type = ''suspicious_connection'',
               alert_severity = (if calculate_basic_risk_score e cfg c > 80 then High else Medium),
               alert_risk = calculate_basic_risk_score e cfg c\<rparr>]
        else [])"
    by (simp add: analyze_connection_def Let_def)
  have stored: "risk_score (fst (analyze_connection e cfg c)) = calculate_basic_risk_score e cfg c"
    by (simp add: analyze_connection_def Let_def)
  have a: "calculate_basic_risk_score (linux_env t) default_config (scenario_connection ''203.0.113.5'') = 45"
    by (simp add: scenario_score default_has_31337 test_net_3_internal)
  have b: "calculate_basic_risk_score (linux_env t) default_config (scenario_connection ''8.8.8.8'') = 65"
    by (simp add: scenario_score default_has_31337 public_dns_external)
  show ?thesis
  proof (intro conjI impI)
    show "calculate_basic_risk_score e cfg c =
       (if port_suspicious cfg (foreign_port c) then 30 else 0)
       + (if port_suspicious cfg (local_port c) then 25 else 0)
       + (if external_ip e (foreign_ip c) then 20 else 0)
       + (if suspicious_program (program c) then 15 else 0)"
      by (rule score_is_sum)
    show "0 \<le> calculate_basic_risk_score e cfg c" by (rule score_range)
    show "calculate_basic_risk_score e cfg c \<le> 100" by (rule score_range)
    show "risk_score (fst (analyze_connection e cfg c)) = calculate_basic_risk_score e cfg c"
      by (rule stored)
    show "snd (analyze_connection e cfg c) =
       (if calculate_basic_risk_score e cfg c > 50
        then [\<lparr>alert_type = ''suspicious_connection'',
               alert_severity = (if calculate_basic_risk_score e cfg c > 80 then High else Medium),
               alert_risk = calculate_basic_risk_score e cfg c\<rparr>]
        else [])"
      by (rule alerts)
    show "calculate_basic_risk_score e cfg (scenario_connection ip) =
          (if external_ip e (Some ip) then 65 else 45)" if "31337 \<in> set (suspicious_ports cfg)"
      using that by (rule scenario_score)
    show "calculate_basic_risk_score (linux_env t) default_config (scenario_connection ''203.0.113.5'') = 45"
      by (rule a)
    show "calculate_basic_risk_score (linux_env t) default_config (scenario_connection ''8.8.8.8'') = 65"
      by (rule b)
  qed
qed

theorem C6_risk_score_witness:
  "31337 \<in> set (suspicious_ports default_config)
   \<and> calculate_basic_risk_score (linux_env 0) default_config (scenario_connection ''8.8.8.8'') = 65
   \<and> snd (analyze_connection (linux_env 0) default_config (scenario_connection ''8.8.8.8'')) =
       [\<lparr>alert_type = ''suspicious_connection'', alert_severity = Medium, alert_risk = 65\<rparr>]"
  using C6_risk_score [where e = "linux_env 0" and cfg = default_config
      and c = "scenario_connection ''8.8.8.8''" and ip = "''8.8.8.8''" and t = 0]
    default_has_31337
  by simp

section \<open>Frame lemmas for the manager state\<close>

lemma call_fields [simp]:
  "calls (call c m) = calls m @ [c]"
  "blocked_ips (call c m) = blocked_ips m"
  "suspended_processes (call c m) = suspended_processes m"
  "audit_log (call c m) = audit_log m"
  "db_blocked_ips (call c m) = db_blocked_ips m"
  "db_suspended_processes (call c m) = db_suspended_processes m"
  "db_response_log (call c m) = db_response_log m"
  by (simp_all add: call_def)

lemma log_response_fields [simp]:
  "calls (log_response e act tgt rsn ok m) = calls m"
  "blocked_ips (log_response e act tgt rsn ok m) = blocked_ips m"
  "suspended_processes (log_response e act tgt rsn ok m) = suspended_processes m"
  "db_blocked_ips (log_response e act tgt rsn ok m) = db_blocked_ips m"
  "db_suspended_processes (log_response e act tgt rsn ok m) = db_suspended_processes m"
  "db_response_log (log_response e act tgt rsn ok m) =
     db_response_log m
     @ [\<lparr>action = act, target = tgt, reason = rsn, timestamp = now e, success = ok\<rparr>]"
  "audit_log (log_response e act tgt rsn ok m) =
     audit_tail (audit_log m
       @ [\<lparr>action = act, target = tgt, reason = rsn, timestamp = now e, success = ok\<rparr>])"
  by (simp_all add: log_response_def Let_def)

section \<open>Whitelisted addresses are never blocked\<close>




lemma linux_env_now [simp]: "now (linux_env t) = t"
  by (simp add: linux_env_def)

lemma empty_manager_fields [simp]:
  "blocked_ips empty_manager = {}" "suspended_processes empty_manager = {}"
  "audit_log empty_manager = []" "db_blocked_ips empty_manager = []"
  "db_suspended_processes empty_manager = []" "db_response_log empty_manager = []"
  "calls empty_manager = []"
  by (simp_all add: empty_manager_def)






section \<open>Blocking an address\<close>



















section \<open>Blocking twice\<close>

lemma insert_or_replace_blocked_count:
  "length (filter (\<lambda>r. row_ip r = row_ip row) (insert_or_replace_blocked row rows)) = 1"
  by (simp add: insert_or_replace_blocked_def)



section \<open>Terminating a process\<close>









section \<open>What reaches the audit store\<close>

lemma remove_rules_frame:
  assumes "remove_rules e ip m = (r, m1)"
  shows "blocked_ips m1 = blocked_ips m" "db_blocked_ips m1 = db_blocked_ips m"
    "db_response_log m1 = db_response_log m" "audit_log m1 = audit_log m"
  using assms
  by (auto simp: remove_rules_def Let_def split: if_splits sum.splits option.splits)


lemma unblock_ip_audit:
  assumes "unblock_ip e ip m = ((ok, msg), m')"
  shows "db_response_log m' =
           db_response_log m
           @ (if ok then [\<lparr>action = ''unblock_ip'', target = TargetIp ip,
                           reason = Text ''Manual unblock'', timestamp = now e, success = True\<rparr>]
              else [])
           \<and> audit_log m' =
               (if db_response_log m' = db_response_log m then audit_log m
                else audit_tail (audit_log m @ [last (db_response_log m')]))"
  using assms
  by (auto simp: unblock_ip_def Let_def remove_rules_frame
      split: if_splits prod.splits sum.splits)











section \<open>The expiry sweep\<close>




text \<open>
  In general, every audit entry the sweep adds is an \<open>unblock_ip\<close> entry with the
  reason "Manual unblock".
\<close>

lemma sweep_rows_entries:
  "\<exists>es. db_response_log (sweep_rows e rows m) = db_response_log m @ es
        \<and> (\<forall>x \<in> set es. action x = ''unblock_ip'' \<and> reason x = Text ''Manual unblock'')"
proof (induction rows arbitrary: m)
  case Nil
  show ?case by simp
next
  case (Cons r rows)
  show ?case
  proof (cases "\<exists>t. auto_unblock_time r = Some t \<and> now e \<ge> t")
    case False
    then have "sweep_rows e (r # rows) m = sweep_rows e rows m"
      by (cases "auto_unblock_time r") auto
    then show ?thesis using Cons.IH [of m] by simp
  next
    case True
    obtain ok msg m1 where u: "unblock_ip e (row_ip r) m = ((ok, msg), m1)"
      by (cases "unblock_ip e (row_ip r) m") auto
    from True u have step: "sweep_rows e (r # rows) m = sweep_rows e rows m1" by auto
    obtain es where es: "db_response_log (sweep_rows e rows m1) = db_response_log m1 @ es"
      "\<forall>x \<in> set es. action x = ''unblock_ip'' \<and> reason x = Text ''Manual unblock''"
      using Cons.IH [of m1] by blast
    let ?first = "if ok then [\<lparr>action = ''unblock_ip'', target = TargetIp (row_ip r),
                           reason = Text ''Manual unblock'', timestamp = now e, success = True\<rparr>]
                  else []"
    have "db_response_log (sweep_rows e (r # rows) m) = db_response_log m @ (?first @ es)"
      using unblock_ip_audit [OF u] es(1) step by simp
    moreover have "\<forall>x \<in> set (?first @ es). action x = ''unblock_ip'' \<and> reason x = Text ''Manual unblock''"
      using es(2) by auto
    ultimately show ?thesis by blast
  qed
qed

section \<open>The budget of automatic blocks\<close>

lemma count_auto_blocks_simps [simp]:
  "count_auto_blocks [] = 0"
  "count_auto_blocks (out @ outs) = count_auto_blocks out + count_auto_blocks outs"
  "count_auto_blocks [AutoBlocked msg] = 1"
  "count_auto_blocks [FailedAutoBlock msg] = 0"
  "count_auto_blocks [AutoTerminated msg] = 0"
  "count_auto_blocks [FailedAutoTerminate msg] = 0"
  "count_auto_blocks [ManualResult ok msg] = 0"
  "count_auto_blocks [TerminationCancelled] = 0"
  "count_auto_blocks [IgnoringConnection] = 0"
  "count_auto_blocks [DetailedIntelligence] = 0"
  "count_auto_blocks [ActionCancelled] = 0"
  "count_auto_blocks [RaisedEOFError] = 0"
  by (simp_all add: count_auto_blocks_def)























section \<open>Merging a configuration document\<close>









end
